theory Spec2Isabelle
  imports Main
begin

section \<open>The service syncer controller (pkg/syncer/controllers/service/controller.go)\<close>

text \<open>
  A shallow embedding of the controller that mirrors tenant services into the super master.
  Every method of the Go file is a function on an explicit \<open>world\<close>: the state of the
  objects the controller talks to (the super master behind the service client, the
  multi cluster controller, the work queue, the informer, the controller manager) and the
  lines written to klog. A Go \<open>error\<close> is a \<open>go_error option\<close> (\<open>None\<close> is nil), and a
  run-time panic is an outcome of its own, distinct from every returned value. StartDWS,
  which hands over to the multi cluster controller until the stop channel closes, is left
  out.
\<close>

subsection \<open>Values\<close>

text \<open>
  An error value. \<open>StatusError r\<close> is an API status error of apimachinery whose reason is
  \<open>r\<close>; every other error is an \<open>OtherError\<close> with its message.
\<close>

datatype go_error = StatusError string | OtherError string

text \<open>
  errors.IsAlreadyExists and errors.IsNotFound of apimachinery compare the reason of the
  error with StatusReasonAlreadyExists and StatusReasonNotFound; nil and errors that carry
  no status have the unknown reason.
\<close>

fun ReasonForError :: "go_error option \<Rightarrow> string" where
  "ReasonForError None = []"
| "ReasonForError (Some (StatusError r)) = r"
| "ReasonForError (Some (OtherError m)) = []"

definition IsAlreadyExists :: "go_error option \<Rightarrow> bool" where
  "IsAlreadyExists err = (ReasonForError err = ''AlreadyExists'')"

definition IsNotFound :: "go_error option \<Rightarrow> bool" where
  "IsNotFound err = (ReasonForError err = ''NotFound'')"

text \<open>
  A v1.Service: of its object metadata the namespace, the name, the resource version and
  the labels; \<open>Spec\<close> holds its resource-specific fields, by name.
\<close>

record Service =
  Namespace :: string
  Name :: string
  ResourceVersion :: string
  Labels :: "(string \<times> string) list"
  Spec :: "(string \<times> string) list"

text \<open>
  A value of type \<open>interface{}\<close> (or runtime.Object): a pointer to a v1.Service, or
  anything else. The unchecked type assertion \<open>x.(*v1.Service)\<close> panics on the second.
  Pointers to services are taken to be non-nil. Of a value that is no service the model
  keeps what cache.MetaNamespaceKeyFunc makes of it: its key, when it is a cache.ExplicitKey
  or an object with metadata (a pod, say), and nothing otherwise.
\<close>

datatype iface = ServiceObj Service | OtherObj "string option"

datatype 'a outcome = Return 'a | Panic string

definition assert_Service :: "iface \<Rightarrow> Service outcome" where
  "assert_Service x =
     (case x of
        ServiceObj s \<Rightarrow> Return s
      | OtherObj k \<Rightarrow> Panic ''interface conversion: interface {} is not *v1.Service'')"

text \<open>
  The request of package reconciler, as Reconcile reads it. The event type is an open type
  in Go: \<open>OtherEvent\<close> stands for every value that is none of the three constants.
\<close>

datatype EventType = AddEvent | UpdateEvent | DeleteEvent | OtherEvent string

record Cluster =
  cluster_Name :: string

record Request =
  Cluster :: Cluster
  req_Namespace :: string
  req_Name :: string
  Event :: EventType
  Obj :: iface

record Result =
  Requeue :: bool

record DeleteOptions =
  PropagationPolicy :: "string option"

subsection \<open>Collaborators\<close>

text \<open>
  The service client is an interface: a record of its two methods that the controller
  calls, each a function on the state \<open>'h\<close> of the super master behind the client. Create
  returns the created object too; the controller discards it.
\<close>

record 'h ServicesGetter =
  Create :: "string \<Rightarrow> Service \<Rightarrow> 'h \<Rightarrow> go_error option \<times> 'h"
  Delete :: "string \<Rightarrow> string \<Rightarrow> DeleteOptions \<Rightarrow> 'h \<Rightarrow> go_error option \<times> 'h"

text \<open>
  The multi cluster controller of package controller is not among the sources: the one
  method that is called on it is a parameter, a function on its state \<open>'m\<close>.
\<close>

record 'm MultiClusterController =
  WatchClusterResource :: "Cluster \<Rightarrow> unit \<Rightarrow> 'm \<Rightarrow> go_error option \<times> 'm"

text \<open>
  Package conversion and package constants are not among the sources either: their
  functions and constants are parameters of the model.
\<close>

record conversion =
  ToSuperMasterNamespace :: "string \<Rightarrow> string \<Rightarrow> string"
  BuildMetadata :: "string \<Rightarrow> string \<Rightarrow> iface \<Rightarrow> go_error + iface"
  MutateService :: "Service \<Rightarrow> Service"
  DefaultDeletionPolicy :: string
  DefaultControllerWorkers :: int

subsection \<open>The controller and the world\<close>

datatype lister_ref = Lister_of_serviceInformer
datatype synced_ref = HasSynced_of_serviceInformer

record ('h, 'm) controller =
  serviceClient :: "'h ServicesGetter"
  multiClusterServiceController :: "'m MultiClusterController option"
  workers :: int
  serviceLister :: "lister_ref option"
  queue :: string
  serviceSynced :: "synced_ref option"

text \<open>
  The functions given to the informer are closures of Register; the informer keeps which
  ones it was given.
\<close>

datatype add_handler = c_enqueueService
datatype update_handler = Register_UpdateFunc

record ResourceEventHandlerFuncs =
  AddFunc :: "add_handler option"
  UpdateFunc :: "update_handler option"
  DeleteFunc :: "add_handler option"

datatype log_arg = S string | E go_error | Ev EventType

datatype log_entry =
    Infof string "log_arg list"
  | Warningf string "log_arg list"
  | Errorf string "log_arg list"

datatype api_call =
    CreateCall string Service
  | DeleteCall string string DeleteOptions

text \<open>
  \<open>host\<close> is the state of the super master, \<open>api_calls\<close> the calls made on the service
  client, \<open>mcc\<close> the state of the multi cluster controller, \<open>work_queue\<close> the keys given to
  \<open>c.queue.Add\<close>, \<open>handled_errors\<close> the errors given to utilruntime.HandleError,
  \<open>informer_handlers\<close> the handlers added to the service informer and
  \<open>manager_controllers\<close> the controllers added to the controller manager.
\<close>

record ('h, 'm) world =
  host :: 'h
  api_calls :: "api_call list"
  mcc :: 'm
  work_queue :: "string list"
  klog :: "log_entry list"
  handled_errors :: "go_error list"
  informer_handlers :: "ResourceEventHandlerFuncs list"
  manager_controllers :: "('h, 'm) controller list"

definition klog_write :: "log_entry \<Rightarrow> ('h, 'm) world \<Rightarrow> ('h, 'm) world" where
  "klog_write e w = w\<lparr>klog := klog w @ [e]\<rparr>"

subsection \<open>Enqueueing\<close>

text \<open>
  cache.MetaNamespaceKeyFunc of client-go: \<open>namespace/name\<close>, or the name alone when the
  namespace is empty; the key itself for a cache.ExplicitKey; and an error for a value
  without metadata.
\<close>

definition MetaNamespaceKeyFunc :: "iface \<Rightarrow> go_error + string" where
  "MetaNamespaceKeyFunc obj =
     (case obj of
        ServiceObj s \<Rightarrow>
          if length (Namespace s) > 0 then Inr (Namespace s @ ''/'' @ Name s)
          else Inr (Name s)
      | OtherObj (Some key) \<Rightarrow> Inr key
      | OtherObj None \<Rightarrow> Inl (OtherError ''object has no meta''))"

definition enqueueService :: "iface \<Rightarrow> ('h, 'm) world \<Rightarrow> ('h, 'm) world" where
  "enqueueService obj w =
     (case MetaNamespaceKeyFunc obj of
        Inl err \<Rightarrow> w\<lparr>handled_errors := handled_errors w @ [err]\<rparr>
      | Inr key \<Rightarrow> w\<lparr>work_queue := work_queue w @ [key]\<rparr>)"

text \<open>The UpdateFunc closure of Register.\<close>

definition UpdateFunc_of_Register ::
  "iface \<Rightarrow> iface \<Rightarrow> ('h, 'm) world \<Rightarrow> unit outcome \<times> ('h, 'm) world" where
  "UpdateFunc_of_Register oldObj newObj w =
     (case assert_Service newObj of
        Panic p \<Rightarrow> (Panic p, w)
      | Return newService \<Rightarrow>
          (case assert_Service oldObj of
             Panic p \<Rightarrow> (Panic p, w)
           | Return oldService \<Rightarrow>
               if ResourceVersion newService = ResourceVersion oldService
               then (Return (), w)
               else (Return (), enqueueService newObj w)))"

text \<open>
  How the informer delivers an update notification to a handler
  (ResourceEventHandlerFuncs.OnUpdate of client-go): the UpdateFunc is called when set.
\<close>

definition OnUpdate ::
  "ResourceEventHandlerFuncs \<Rightarrow> iface \<Rightarrow> iface \<Rightarrow> ('h, 'm) world \<Rightarrow>
     unit outcome \<times> ('h, 'm) world" where
  "OnUpdate r oldObj newObj w =
     (case UpdateFunc r of
        None \<Rightarrow> (Return (), w)
      | Some Register_UpdateFunc \<Rightarrow> UpdateFunc_of_Register oldObj newObj w)"

subsection \<open>Register\<close>

text \<open>The struct literal at the head of Register.\<close>

definition new_controller :: "conversion \<Rightarrow> 'h ServicesGetter \<Rightarrow> ('h, 'm) controller" where
  "new_controller conv client =
     \<lparr>serviceClient = client,
      multiClusterServiceController = None,
      workers = DefaultControllerWorkers conv,
      serviceLister = None,
      queue = ''super_master_service'',
      serviceSynced = None\<rparr>"

text \<open>
  \<open>NewController\<close> of package controller is a parameter: it is given the name, the object
  type and the reconciler, and returns the multi cluster controller or an error.
\<close>

definition Register ::
  "conversion \<Rightarrow>
   (string \<Rightarrow> iface \<Rightarrow> ('h, 'm) controller \<Rightarrow> go_error + 'm MultiClusterController) \<Rightarrow>
   'h ServicesGetter \<Rightarrow> ('h, 'm) world \<Rightarrow> ('h, 'm) world" where
  "Register conv NewController client w =
     (let c = new_controller conv client
      in case NewController ''tenant-masters-service-controller''
                (ServiceObj \<lparr>Namespace = [], Name = [], ResourceVersion = [], Labels = [], Spec = []\<rparr>) c of
           Inl err \<Rightarrow>
             klog_write
               (Errorf ''failed to create multi cluster service controller %v'' [E err]) w
         | Inr m \<Rightarrow>
             (let c' = c\<lparr>multiClusterServiceController := Some m,
                          serviceLister := Some Lister_of_serviceInformer,
                          serviceSynced := Some HasSynced_of_serviceInformer\<rparr>;
                  w' = w\<lparr>informer_handlers := informer_handlers w @
                            [\<lparr>AddFunc = Some c_enqueueService,
                              UpdateFunc = Some Register_UpdateFunc,
                              DeleteFunc = None\<rparr>]\<rparr>
              in w'\<lparr>manager_controllers := manager_controllers w' @ [c']\<rparr>))"

subsection \<open>Reconcile\<close>

definition reconcileServiceCreate ::
  "conversion \<Rightarrow> ('h, 'm) controller \<Rightarrow> string \<Rightarrow> string \<Rightarrow> string \<Rightarrow> Service \<Rightarrow>
     ('h, 'm) world \<Rightarrow> go_error option outcome \<times> ('h, 'm) world" where
  "reconcileServiceCreate conv c cluster namespace name service w =
     (let targetNamespace = ToSuperMasterNamespace conv cluster namespace
      in case BuildMetadata conv cluster targetNamespace (ServiceObj service) of
           Inl err \<Rightarrow> (Return (Some err), w)
         | Inr newObj \<Rightarrow>
             (case assert_Service newObj of
                Panic p \<Rightarrow> (Panic p, w)
              | Return pService0 \<Rightarrow>
                  (let pService = MutateService conv pService0;
                       (err, h) = Create (serviceClient c) targetNamespace pService (host w);
                       w' = w\<lparr>host := h,
                              api_calls := api_calls w @ [CreateCall targetNamespace pService]\<rparr>
                   in if IsAlreadyExists err
                      then (Return None,
                            klog_write (Infof ''service %s/%s of cluster %s already exist in super master''
                                   [S namespace, S name, S cluster]) w')
                      else (Return err, w'))))"

definition reconcileServiceUpdate ::
  "('h, 'm) controller \<Rightarrow> string \<Rightarrow> string \<Rightarrow> string \<Rightarrow> Service \<Rightarrow>
     ('h, 'm) world \<Rightarrow> go_error option outcome \<times> ('h, 'm) world" where
  "reconcileServiceUpdate c cluster namespace name service w = (Return None, w)"

definition reconcileServiceRemove ::
  "conversion \<Rightarrow> ('h, 'm) controller \<Rightarrow> string \<Rightarrow> string \<Rightarrow> string \<Rightarrow> Service \<Rightarrow>
     ('h, 'm) world \<Rightarrow> go_error option outcome \<times> ('h, 'm) world" where
  "reconcileServiceRemove conv c cluster namespace name service w =
     (let targetNamespace = ToSuperMasterNamespace conv cluster namespace;
          opts = \<lparr>PropagationPolicy = Some (DefaultDeletionPolicy conv)\<rparr>;
          (err, h) = Delete (serviceClient c) targetNamespace name opts (host w);
          w' = w\<lparr>host := h,
                 api_calls := api_calls w @ [DeleteCall targetNamespace name opts]\<rparr>
      in if IsNotFound err
         then (Return None,
               klog_write (Warningf ''service %s/%s of cluster not found in super master''
                      [S namespace, S name]) w')
         else (Return err, w'))"

text \<open>
  What Reconcile does with the error of a handler: a non-nil error is logged and returned
  with \<open>Requeue: true\<close>; after a nil error the switch is left and the function returns the
  empty result and nil. A panic of the handler goes through.
\<close>

definition after_handler ::
  "string \<Rightarrow> Request \<Rightarrow> go_error option outcome \<times> ('h, 'm) world \<Rightarrow>
     (Result \<times> go_error option) outcome \<times> ('h, 'm) world" where
  "after_handler fmt request r =
     (case r of
        (Panic p, w) \<Rightarrow> (Panic p, w)
      | (Return (Some err), w) \<Rightarrow>
          (Return (\<lparr>Requeue = True\<rparr>, Some err),
           klog_write (Errorf fmt [S (req_Namespace request), S (req_Name request),
                            S (cluster_Name (Cluster request)), E err]) w)
      | (Return None, w) \<Rightarrow> (Return (\<lparr>Requeue = False\<rparr>, None), w))"

definition Reconcile ::
  "conversion \<Rightarrow> ('h, 'm) controller \<Rightarrow> Request \<Rightarrow> ('h, 'm) world \<Rightarrow>
     (Result \<times> go_error option) outcome \<times> ('h, 'm) world" where
  "Reconcile conv c request w0 =
     (let w = klog_write (Infof ''reconcile service %s/%s %s event for cluster %s''
                     [S (req_Namespace request), S (req_Name request), Ev (Event request),
                      S (cluster_Name (Cluster request))]) w0
      in case Event request of
           AddEvent \<Rightarrow>
             (case assert_Service (Obj request) of
                Panic p \<Rightarrow> (Panic p, w)
              | Return service \<Rightarrow>
                  after_handler ''failed reconcile service %s/%s CREATE of cluster %s %v'' request
                    (reconcileServiceCreate conv c (cluster_Name (Cluster request))
                       (req_Namespace request) (req_Name request) service w))
         | UpdateEvent \<Rightarrow>
             (case assert_Service (Obj request) of
                Panic p \<Rightarrow> (Panic p, w)
              | Return service \<Rightarrow>
                  after_handler ''failed reconcile service %s/%s CREATE of cluster %s %v'' request
                    (reconcileServiceUpdate c (cluster_Name (Cluster request))
                       (req_Namespace request) (req_Name request) service w))
         | DeleteEvent \<Rightarrow>
             (case assert_Service (Obj request) of
                Panic p \<Rightarrow> (Panic p, w)
              | Return service \<Rightarrow>
                  after_handler ''failed reconcile service %s/%s DELETE of cluster %s %v'' request
                    (reconcileServiceRemove conv c (cluster_Name (Cluster request))
                       (req_Namespace request) (req_Name request) service w))
         | OtherEvent k \<Rightarrow> (Return (\<lparr>Requeue = False\<rparr>, None), w))"

subsection \<open>Cluster registry\<close>

definition AddCluster ::
  "('h, 'm) controller \<Rightarrow> Cluster \<Rightarrow> ('h, 'm) world \<Rightarrow> unit outcome \<times> ('h, 'm) world" where
  "AddCluster c cluster w0 =
     (let w = klog_write (Infof ''tenant-masters-service-controller watch cluster %s for service resource''
                     [S (cluster_Name cluster)]) w0
      in case multiClusterServiceController c of
           None \<Rightarrow> (Panic ''invalid memory address or nil pointer dereference'', w)
         | Some m \<Rightarrow>
             (let (err, s) = WatchClusterResource m cluster () (mcc w);
                  w' = w\<lparr>mcc := s\<rparr>
              in case err of
                   None \<Rightarrow> (Return (), w')
                 | Some e \<Rightarrow>
                     (Return (),
                      klog_write (Errorf ''failed to watch cluster %s service event: %v''
                             [S (cluster_Name cluster), E e]) w')))"

definition RemoveCluster ::
  "('h, 'm) controller \<Rightarrow> Cluster \<Rightarrow> ('h, 'm) world \<Rightarrow> ('h, 'm) world" where
  "RemoveCluster c cluster w = klog_write (Warningf ''not implemented yet'' []) w"

subsection \<open>Package conversion, as the specification describes it\<close>

text \<open>
  Modelled from the spec: BuildMetadata of package conversion, which is not among the
  sources. Section 4.3 of the specification has it copy the object, set its namespace to
  the target namespace, and stamp identifying labels that record provenance (source
  cluster, source namespace); section 8 names the two labels clusterID and namespace. An
  object that cannot be converted is an error (section 7, malformed input).
\<close>

definition spec_BuildMetadata :: "string \<Rightarrow> string \<Rightarrow> iface \<Rightarrow> go_error + iface" where
  "spec_BuildMetadata cluster targetNamespace obj =
     (case obj of
        ServiceObj s \<Rightarrow>
          Inr (ServiceObj
                 (s\<lparr>Namespace := targetNamespace,
                    Labels := Labels s @ [(''clusterID'', cluster), (''namespace'', Namespace s)]\<rparr>))
      | OtherObj k \<Rightarrow> Inl (OtherError ''object cannot be converted''))"

text \<open>
  Modelled from the spec: MutateService of package conversion, which is not among the
  sources. Section 4.3 of the specification calls it a resource-specific field rewrite and
  leaves open which fields it rewrites and how: the rewrite of the resource-specific
  fields is a parameter, and the metadata is left alone.
\<close>

definition spec_MutateService ::
  "((string \<times> string) list \<Rightarrow> (string \<times> string) list) \<Rightarrow> Service \<Rightarrow> Service" where
  "spec_MutateService rewrite s = s\<lparr>Spec := rewrite (Spec s)\<rparr>"

subsection \<open>Instances for evaluation\<close>

text \<open>
  An in-memory super master in the manner of the fake clientset of client-go: the services
  by namespace and name. Create fails with AlreadyExists on a taken name, Delete with
  NotFound on a free one.
\<close>

type_synonym mem_host = "((string \<times> string) \<times> Service) list"

definition mem_Create :: "string \<Rightarrow> Service \<Rightarrow> mem_host \<Rightarrow> go_error option \<times> mem_host" where
  "mem_Create ns obj h =
     (case map_of h (ns, Name obj) of
        Some old \<Rightarrow> (Some (StatusError ''AlreadyExists''), h)
      | None \<Rightarrow> (None, h @ [((ns, Name obj), obj)]))"

definition mem_Delete ::
  "string \<Rightarrow> string \<Rightarrow> DeleteOptions \<Rightarrow> mem_host \<Rightarrow> go_error option \<times> mem_host" where
  "mem_Delete ns name opts h =
     (case map_of h (ns, name) of
        None \<Rightarrow> (Some (StatusError ''NotFound''), h)
      | Some old \<Rightarrow> (None, filter (\<lambda>kv. fst kv \<noteq> (ns, name)) h))"

definition mem_client :: "mem_host ServicesGetter" where
  "mem_client = \<lparr>Create = mem_Create, Delete = mem_Delete\<rparr>"

text \<open>A client whose every call fails with the given error and changes nothing.\<close>

definition failing_client :: "go_error \<Rightarrow> mem_host ServicesGetter" where
  "failing_client e = \<lparr>Create = (\<lambda>ns obj h. (Some e, h)), Delete = (\<lambda>ns name opts h. (Some e, h))\<rparr>"

text \<open>A multi cluster controller that keeps the names of the clusters it watches.\<close>

definition mem_mcc :: "string list MultiClusterController" where
  "mem_mcc = \<lparr>WatchClusterResource = (\<lambda>cluster opts m. (None, m @ [cluster_Name cluster]))\<rparr>"

text \<open>
  A conversion package to run the handlers with: the namespace is prefixed with the
  cluster, the copy is moved to the target namespace and loses its resource version.
\<close>

definition example_conversion :: conversion where
  "example_conversion =
     \<lparr>ToSuperMasterNamespace = (\<lambda>cluster ns. cluster @ ''-'' @ ns),
      BuildMetadata = (\<lambda>cluster targetNamespace obj.
        case obj of
          ServiceObj s \<Rightarrow> Inr (ServiceObj (s\<lparr>Namespace := targetNamespace, ResourceVersion := []\<rparr>))
        | OtherObj k \<Rightarrow> Inl (OtherError ''object does not implement the Object interfaces'')),
      MutateService = (\<lambda>s. s),
      DefaultDeletionPolicy = ''Background'',
      DefaultControllerWorkers = 3\<rparr>"

text \<open>
  The same with BuildMetadata and MutateService as the specification describes them; the
  rewrite here drops the cluster IP.
\<close>

definition drop_clusterIP :: "(string \<times> string) list \<Rightarrow> (string \<times> string) list" where
  "drop_clusterIP fs = filter (\<lambda>kv. fst kv \<noteq> ''clusterIP'') fs"

definition spec_example_conversion :: conversion where
  "spec_example_conversion =
     example_conversion\<lparr>BuildMetadata := spec_BuildMetadata,
                         MutateService := spec_MutateService drop_clusterIP\<rparr>"

text \<open>A conversion package whose BuildMetadata always fails.\<close>

definition failing_conversion :: conversion where
  "failing_conversion =
     example_conversion\<lparr>BuildMetadata := (\<lambda>cluster targetNamespace obj. Inl (OtherError ''no meta''))\<rparr>"

definition example_controller :: "mem_host ServicesGetter \<Rightarrow> (mem_host, string list) controller" where
  "example_controller client =
     \<lparr>serviceClient = client,
      multiClusterServiceController = Some mem_mcc,
      workers = 3,
      serviceLister = Some Lister_of_serviceInformer,
      queue = ''super_master_service'',
      serviceSynced = Some HasSynced_of_serviceInformer\<rparr>"

definition world0 :: "(mem_host, string list) world" where
  "world0 =
     \<lparr>host = [], api_calls = [], mcc = [], work_queue = [], klog = [], handled_errors = [],
      informer_handlers = [], manager_controllers = []\<rparr>"

definition web :: Service where
  "web = \<lparr>Namespace = ''default'', Name = ''web'', ResourceVersion = ''7'', Labels = [],
           Spec = [(''clusterIP'', ''10.0.0.7'')]\<rparr>"

definition request_web :: "EventType \<Rightarrow> iface \<Rightarrow> Request" where
  "request_web ev obj =
     \<lparr>Cluster = \<lparr>cluster_Name = ''c1''\<rparr>, req_Namespace = ''default'', req_Name = ''web'',
      Event = ev, Obj = obj\<rparr>"

section \<open>Properties\<close>

subsection \<open>Writing to the log touches nothing else\<close>

lemma klog_write_fields:
  "host (klog_write e w) = host w"
  "api_calls (klog_write e w) = api_calls w"
  "mcc (klog_write e w) = mcc w"
  "work_queue (klog_write e w) = work_queue w"
  "informer_handlers (klog_write e w) = informer_handlers w"
  "manager_controllers (klog_write e w) = manager_controllers w"
  "klog (klog_write e w) = klog w @ [e]"
  by (simp_all add: klog_write_def)

lemma fst_reconcileServiceCreate_klog_write:
  "fst (reconcileServiceCreate conv c cluster namespace name service (klog_write e w)) =
   fst (reconcileServiceCreate conv c cluster namespace name service w)"
  by (simp add: reconcileServiceCreate_def klog_write_fields Let_def
      split: sum.splits outcome.splits prod.splits)

lemma fst_reconcileServiceRemove_klog_write:
  "fst (reconcileServiceRemove conv c cluster namespace name service (klog_write e w)) =
   fst (reconcileServiceRemove conv c cluster namespace name service w)"
  by (simp add: reconcileServiceRemove_def klog_write_fields Let_def split: prod.splits)

lemma fst_after_handler:
  "fst (after_handler fmt request r) =
     (case fst r of
        Panic p \<Rightarrow> Panic p
      | Return None \<Rightarrow> Return (\<lparr>Requeue = False\<rparr>, None)
      | Return (Some err) \<Rightarrow> Return (\<lparr>Requeue = True\<rparr>, Some err))"
  by (simp add: after_handler_def split: prod.splits outcome.splits option.splits)

subsection \<open>Benign races\<close>

text \<open>
  C1. For a Create request, when the Create call on the host API fails with an
  "already exists" error, reconcileServiceCreate returns nil and Reconcile returns
  \<open>Result{Requeue: false}\<close> with a nil error. (The call is reached when the request carries
  a service and BuildMetadata returns the copy.)
\<close>

theorem Reconcile_Create_AlreadyExists_succeeds:
  assumes "Event request = AddEvent"
    and "Obj request = ServiceObj service"
    and "BuildMetadata conv (cluster_Name (Cluster request))
           (ToSuperMasterNamespace conv (cluster_Name (Cluster request)) (req_Namespace request))
           (ServiceObj service) = Inr (ServiceObj pService)"
    and "IsAlreadyExists (fst (Create (serviceClient c)
           (ToSuperMasterNamespace conv (cluster_Name (Cluster request)) (req_Namespace request))
           (MutateService conv pService) (host w)))"
  shows "fst (reconcileServiceCreate conv c (cluster_Name (Cluster request))
                (req_Namespace request) (req_Name request) service w) = Return None \<and>
         fst (Reconcile conv c request w) = Return (\<lparr>Requeue = False\<rparr>, None)"
proof -
  have handler: "fst (reconcileServiceCreate conv c (cluster_Name (Cluster request))
                   (req_Namespace request) (req_Name request) service w) = Return None"
    using assms(3,4)
    by (auto simp: reconcileServiceCreate_def assert_Service_def Let_def split: prod.splits)
  have "fst (Reconcile conv c request w) = Return (\<lparr>Requeue = False\<rparr>, None)"
    using assms(1,2) handler
    by (simp add: Reconcile_def assert_Service_def Let_def fst_after_handler
        fst_reconcileServiceCreate_klog_write)
  with handler show ?thesis by simp
qed

text \<open>
  The same Create request reconciled twice on the in-memory super master: the second
  attempt meets the object of the first, and succeeds.
\<close>

theorem Reconcile_Create_AlreadyExists_succeeds_witness:
  "Event (request_web AddEvent (ServiceObj web)) = AddEvent \<and>
   Obj (request_web AddEvent (ServiceObj web)) = ServiceObj web \<and>
   BuildMetadata example_conversion ''c1'' ''c1-default'' (ServiceObj web) =
     Inr (ServiceObj (web\<lparr>Namespace := ''c1-default'', ResourceVersion := []\<rparr>)) \<and>
   IsAlreadyExists (fst (Create (serviceClient (example_controller mem_client)) ''c1-default''
      (web\<lparr>Namespace := ''c1-default'', ResourceVersion := []\<rparr>)
      (host (snd (Reconcile example_conversion (example_controller mem_client)
                    (request_web AddEvent (ServiceObj web)) world0))))) \<and>
   fst (Reconcile example_conversion (example_controller mem_client)
          (request_web AddEvent (ServiceObj web))
          (snd (Reconcile example_conversion (example_controller mem_client)
                  (request_web AddEvent (ServiceObj web)) world0))) =
     Return (\<lparr>Requeue = False\<rparr>, None)"
proof -
  let ?r = "request_web AddEvent (ServiceObj web)"
  let ?c = "example_controller mem_client"
  let ?w = "snd (Reconcile example_conversion ?c ?r world0)"
  have h: "host ?w = [((''c1-default'', ''web''), web\<lparr>Namespace := ''c1-default'', ResourceVersion := []\<rparr>)]"
    by (simp add: Reconcile_def request_web_def assert_Service_def after_handler_def
        reconcileServiceCreate_def example_conversion_def example_controller_def mem_client_def
        mem_Create_def world0_def web_def klog_write_def IsAlreadyExists_def Let_def)
  have e: "Event ?r = AddEvent" and o: "Obj ?r = ServiceObj web"
    by (simp_all add: request_web_def)
  have b: "BuildMetadata example_conversion (cluster_Name (Cluster ?r))
             (ToSuperMasterNamespace example_conversion (cluster_Name (Cluster ?r)) (req_Namespace ?r))
             (ServiceObj web) = Inr (ServiceObj (web\<lparr>Namespace := ''c1-default'', ResourceVersion := []\<rparr>))"
    by (simp add: example_conversion_def request_web_def)
  have a: "IsAlreadyExists (fst (Create (serviceClient ?c) ''c1-default''
      (web\<lparr>Namespace := ''c1-default'', ResourceVersion := []\<rparr>) (host ?w)))"
    unfolding h
    by (simp add: example_controller_def mem_client_def mem_Create_def web_def IsAlreadyExists_def)
  have a': "IsAlreadyExists (fst (Create (serviceClient ?c)
      (ToSuperMasterNamespace example_conversion (cluster_Name (Cluster ?r)) (req_Namespace ?r))
      (MutateService example_conversion (web\<lparr>Namespace := ''c1-default'', ResourceVersion := []\<rparr>))
      (host ?w)))"
    using a by (simp add: example_conversion_def request_web_def)
  have b': "BuildMetadata example_conversion ''c1'' ''c1-default'' (ServiceObj web) =
            Inr (ServiceObj (web\<lparr>Namespace := ''c1-default'', ResourceVersion := []\<rparr>))"
    by (simp add: example_conversion_def)
  from Reconcile_Create_AlreadyExists_succeeds [OF e o b a'] e o a b'
  show ?thesis by simp
qed

text \<open>
  C2. For a Delete request, when the Delete call on the host API fails with a "not found"
  error, reconcileServiceRemove returns nil and Reconcile reports success.
\<close>

theorem Reconcile_Delete_NotFound_succeeds:
  assumes "Event request = DeleteEvent"
    and "Obj request = ServiceObj service"
    and "IsNotFound (fst (Delete (serviceClient c)
           (ToSuperMasterNamespace conv (cluster_Name (Cluster request)) (req_Namespace request))
           (req_Name request) \<lparr>PropagationPolicy = Some (DefaultDeletionPolicy conv)\<rparr> (host w)))"
  shows "fst (reconcileServiceRemove conv c (cluster_Name (Cluster request))
                (req_Namespace request) (req_Name request) service w) = Return None \<and>
         fst (Reconcile conv c request w) = Return (\<lparr>Requeue = False\<rparr>, None)"
proof -
  have handler: "fst (reconcileServiceRemove conv c (cluster_Name (Cluster request))
                   (req_Namespace request) (req_Name request) service w) = Return None"
    using assms(3) by (auto simp: reconcileServiceRemove_def Let_def split: prod.splits)
  have "fst (Reconcile conv c request w) = Return (\<lparr>Requeue = False\<rparr>, None)"
    using assms(1,2) handler
    by (simp add: Reconcile_def assert_Service_def Let_def fst_after_handler
        fst_reconcileServiceRemove_klog_write)
  with handler show ?thesis by simp
qed

text \<open>Deleting the mirrored copy of \<open>web\<close> from an empty super master.\<close>

theorem Reconcile_Delete_NotFound_succeeds_witness:
  "Event (request_web DeleteEvent (ServiceObj web)) = DeleteEvent \<and>
   Obj (request_web DeleteEvent (ServiceObj web)) = ServiceObj web \<and>
   IsNotFound (fst (Delete (serviceClient (example_controller mem_client)) ''c1-default'' ''web''
      \<lparr>PropagationPolicy = Some ''Background''\<rparr> (host world0))) \<and>
   fst (Reconcile example_conversion (example_controller mem_client)
          (request_web DeleteEvent (ServiceObj web)) world0) =
     Return (\<lparr>Requeue = False\<rparr>, None)"
proof -
  let ?r = "request_web DeleteEvent (ServiceObj web)"
  let ?c = "example_controller mem_client"
  have e: "Event ?r = DeleteEvent" and o: "Obj ?r = ServiceObj web"
    by (simp_all add: request_web_def)
  have a: "IsNotFound (fst (Delete (serviceClient ?c) ''c1-default'' ''web''
      \<lparr>PropagationPolicy = Some ''Background''\<rparr> (host world0)))"
    by (simp add: example_controller_def mem_client_def mem_Delete_def world0_def IsNotFound_def)
  have a': "IsNotFound (fst (Delete (serviceClient ?c)
      (ToSuperMasterNamespace example_conversion (cluster_Name (Cluster ?r)) (req_Namespace ?r))
      (req_Name ?r) \<lparr>PropagationPolicy = Some (DefaultDeletionPolicy example_conversion)\<rparr>
      (host world0)))"
    using a by (simp add: example_conversion_def request_web_def)
  from Reconcile_Delete_NotFound_succeeds [OF e o a'] e o a
  show ?thesis by simp
qed

subsection \<open>Failures are requeued\<close>

lemma reconcileServiceCreate_BuildMetadata_error:
  assumes "BuildMetadata conv cluster (ToSuperMasterNamespace conv cluster namespace)
             (ServiceObj service) = Inl err"
  shows "reconcileServiceCreate conv c cluster namespace name service w = (Return (Some err), w)"
  using assms by (simp add: reconcileServiceCreate_def)

lemma reconcileServiceCreate_returns_api_error:
  assumes "BuildMetadata conv cluster (ToSuperMasterNamespace conv cluster namespace)
             (ServiceObj service) = Inr (ServiceObj pService)"
    and "\<not> IsAlreadyExists (fst (Create (serviceClient c)
           (ToSuperMasterNamespace conv cluster namespace) (MutateService conv pService) (host w)))"
  shows "fst (reconcileServiceCreate conv c cluster namespace name service w) =
         Return (fst (Create (serviceClient c) (ToSuperMasterNamespace conv cluster namespace)
                        (MutateService conv pService) (host w)))"
  using assms
  by (auto simp: reconcileServiceCreate_def assert_Service_def Let_def split: prod.splits)

lemma reconcileServiceRemove_returns_api_error:
  assumes "\<not> IsNotFound (fst (Delete (serviceClient c)
           (ToSuperMasterNamespace conv cluster namespace) name
           \<lparr>PropagationPolicy = Some (DefaultDeletionPolicy conv)\<rparr> (host w)))"
  shows "fst (reconcileServiceRemove conv c cluster namespace name service w) =
         Return (fst (Delete (serviceClient c) (ToSuperMasterNamespace conv cluster namespace) name
                        \<lparr>PropagationPolicy = Some (DefaultDeletionPolicy conv)\<rparr> (host w)))"
  using assms by (auto simp: reconcileServiceRemove_def Let_def split: prod.splits)

text \<open>
  C3. Whatever the handler of the request's event kind returns, Reconcile pairs it with the
  matching result: a non-nil error with \<open>Result{Requeue: true}\<close> and that same error, nil
  with \<open>Result{Requeue: false}\<close> and nil. So a failed mutation never yields success.
\<close>

theorem Reconcile_requeues_on_handler_error:
  assumes "Obj request = ServiceObj service"
    and "Event request = AddEvent \<and>
           fst (reconcileServiceCreate conv c (cluster_Name (Cluster request))
                  (req_Namespace request) (req_Name request) service w) = Return err \<or>
         Event request = UpdateEvent \<and>
           fst (reconcileServiceUpdate c (cluster_Name (Cluster request))
                  (req_Namespace request) (req_Name request) service w) = Return err \<or>
         Event request = DeleteEvent \<and>
           fst (reconcileServiceRemove conv c (cluster_Name (Cluster request))
                  (req_Namespace request) (req_Name request) service w) = Return err"
  shows "fst (Reconcile conv c request w) = Return (\<lparr>Requeue = (err \<noteq> None)\<rparr>, err)"
proof -
  consider
    (add) "Event request = AddEvent"
      "fst (reconcileServiceCreate conv c (cluster_Name (Cluster request))
              (req_Namespace request) (req_Name request) service w) = Return err"
  | (update) "Event request = UpdateEvent"
      "fst (reconcileServiceUpdate c (cluster_Name (Cluster request))
              (req_Namespace request) (req_Name request) service w) = Return err"
  | (delete) "Event request = DeleteEvent"
      "fst (reconcileServiceRemove conv c (cluster_Name (Cluster request))
              (req_Namespace request) (req_Name request) service w) = Return err"
    using assms(2) by blast
  then show ?thesis
  proof cases
    case add
    with assms(1) show ?thesis
      by (cases err)
        (simp_all add: Reconcile_def assert_Service_def Let_def fst_after_handler
          fst_reconcileServiceCreate_klog_write)
  next
    case update
    with assms(1) show ?thesis
      by (cases err)
        (simp_all add: Reconcile_def assert_Service_def Let_def fst_after_handler
          reconcileServiceUpdate_def)
  next
    case delete
    with assms(1) show ?thesis
      by (cases err)
        (simp_all add: Reconcile_def assert_Service_def Let_def fst_after_handler
          fst_reconcileServiceRemove_klog_write)
  qed
qed

text \<open>A Create that fails with a server timeout: requeued, with the error.\<close>

theorem Reconcile_requeues_on_handler_error_witness:
  "Obj (request_web AddEvent (ServiceObj web)) = ServiceObj web \<and>
   Event (request_web AddEvent (ServiceObj web)) = AddEvent \<and>
   fst (reconcileServiceCreate example_conversion
          (example_controller (failing_client (StatusError ''ServerTimeout'')))
          ''c1'' ''default'' ''web'' web world0) = Return (Some (StatusError ''ServerTimeout'')) \<and>
   fst (Reconcile example_conversion
          (example_controller (failing_client (StatusError ''ServerTimeout'')))
          (request_web AddEvent (ServiceObj web)) world0) =
     Return (\<lparr>Requeue = True\<rparr>, Some (StatusError ''ServerTimeout''))"
proof -
  let ?r = "request_web AddEvent (ServiceObj web)"
  let ?c = "example_controller (failing_client (StatusError ''ServerTimeout''))"
  have o: "Obj ?r = ServiceObj web" and e: "Event ?r = AddEvent"
    by (simp_all add: request_web_def)
  have h: "fst (reconcileServiceCreate example_conversion ?c ''c1'' ''default'' ''web'' web world0) =
           Return (Some (StatusError ''ServerTimeout''))"
    by (simp add: reconcileServiceCreate_def example_conversion_def example_controller_def
        failing_client_def assert_Service_def IsAlreadyExists_def Let_def)
  have h': "Event ?r = AddEvent \<and>
           fst (reconcileServiceCreate example_conversion ?c (cluster_Name (Cluster ?r))
                  (req_Namespace ?r) (req_Name ?r) web world0) =
             Return (Some (StatusError ''ServerTimeout'')) \<or>
         Event ?r = UpdateEvent \<and>
           fst (reconcileServiceUpdate ?c (cluster_Name (Cluster ?r))
                  (req_Namespace ?r) (req_Name ?r) web world0) =
             Return (Some (StatusError ''ServerTimeout'')) \<or>
         Event ?r = DeleteEvent \<and>
           fst (reconcileServiceRemove example_conversion ?c (cluster_Name (Cluster ?r))
                  (req_Namespace ?r) (req_Name ?r) web world0) =
             Return (Some (StatusError ''ServerTimeout''))"
    using h by (simp add: request_web_def)
  from Reconcile_requeues_on_handler_error [OF o h'] o e h
  show ?thesis by simp
qed

subsection \<open>The Create handler\<close>

text \<open>
  C4. The Create handler computes the target namespace with ToSuperMasterNamespace, builds
  the copy with BuildMetadata for that namespace, applies MutateService to it and makes one
  call on the host API: Create of the mutated copy in the target namespace, on the host
  as it is. This holds for every conversion package. With BuildMetadata and MutateService
  as the specification describes them, the object submitted bears the name of the tenant
  object and the target namespace.
\<close>

theorem reconcileServiceCreate_creates_in_target_namespace:
  assumes "BuildMetadata conv cluster (ToSuperMasterNamespace conv cluster namespace)
             (ServiceObj service) = Inr (ServiceObj pService)"
  shows "api_calls (snd (reconcileServiceCreate conv c cluster namespace name service w)) =
           api_calls w @
             [CreateCall (ToSuperMasterNamespace conv cluster namespace)
                (MutateService conv pService)] \<and>
         host (snd (reconcileServiceCreate conv c cluster namespace name service w)) =
           snd (Create (serviceClient c) (ToSuperMasterNamespace conv cluster namespace)
                  (MutateService conv pService) (host w)) \<and>
         (BuildMetadata conv = spec_BuildMetadata \<and>
          MutateService conv = spec_MutateService rewrite \<longrightarrow>
            Name (MutateService conv pService) = Name service \<and>
            Namespace (MutateService conv pService) =
              ToSuperMasterNamespace conv cluster namespace)"
proof -
  have calls: "api_calls (snd (reconcileServiceCreate conv c cluster namespace name service w)) =
           api_calls w @
             [CreateCall (ToSuperMasterNamespace conv cluster namespace)
                (MutateService conv pService)]"
    using assms
    by (simp add: reconcileServiceCreate_def assert_Service_def Let_def klog_write_fields
        split: prod.splits)
  have hst: "host (snd (reconcileServiceCreate conv c cluster namespace name service w)) =
           snd (Create (serviceClient c) (ToSuperMasterNamespace conv cluster namespace)
                  (MutateService conv pService) (host w))"
    using assms
    by (simp add: reconcileServiceCreate_def assert_Service_def Let_def klog_write_fields
        split: prod.splits)
  have named: "Name (MutateService conv pService) = Name service \<and>
        Namespace (MutateService conv pService) = ToSuperMasterNamespace conv cluster namespace"
    if spec: "BuildMetadata conv = spec_BuildMetadata \<and>
              MutateService conv = spec_MutateService rewrite"
  proof -
    from assms spec
    have "pService =
            service\<lparr>Namespace := ToSuperMasterNamespace conv cluster namespace,
                     Labels := Labels service @
                       [(''clusterID'', cluster), (''namespace'', Namespace service)]\<rparr>"
      by (simp add: spec_BuildMetadata_def)
    with spec show ?thesis
      by (simp add: spec_MutateService_def)
  qed
  from calls hst named show ?thesis by blast
qed

text \<open>
  The service \<open>web\<close> of namespace \<open>default\<close> of cluster \<open>c1\<close>, created on the empty
  in-memory super master: it is there afterwards, in the translated namespace and under its
  own name, with the two labels and without its cluster IP.
\<close>

theorem reconcileServiceCreate_creates_in_target_namespace_witness:
  "BuildMetadata spec_example_conversion ''c1''
     (ToSuperMasterNamespace spec_example_conversion ''c1'' ''default'') (ServiceObj web) =
     Inr (ServiceObj
            (web\<lparr>Namespace := ''c1-default'',
                  Labels := [(''clusterID'', ''c1''), (''namespace'', ''default'')]\<rparr>)) \<and>
   BuildMetadata spec_example_conversion = spec_BuildMetadata \<and>
   MutateService spec_example_conversion = spec_MutateService drop_clusterIP \<and>
   api_calls (snd (reconcileServiceCreate spec_example_conversion (example_controller mem_client)
                     ''c1'' ''default'' ''web'' web world0)) =
     [CreateCall ''c1-default''
        \<lparr>Namespace = ''c1-default'', Name = ''web'', ResourceVersion = ''7'',
         Labels = [(''clusterID'', ''c1''), (''namespace'', ''default'')], Spec = []\<rparr>] \<and>
   map_of (host (snd (reconcileServiceCreate spec_example_conversion
                        (example_controller mem_client)
                        ''c1'' ''default'' ''web'' web world0))) (''c1-default'', ''web'') =
     Some \<lparr>Namespace = ''c1-default'', Name = ''web'', ResourceVersion = ''7'',
           Labels = [(''clusterID'', ''c1''), (''namespace'', ''default'')], Spec = []\<rparr> \<and>
   Name (MutateService spec_example_conversion
           (web\<lparr>Namespace := ''c1-default'',
                 Labels := [(''clusterID'', ''c1''), (''namespace'', ''default'')]\<rparr>)) = Name web"
proof -
  let ?p = "web\<lparr>Namespace := ''c1-default'',
                 Labels := [(''clusterID'', ''c1''), (''namespace'', ''default'')]\<rparr>"
  have b: "BuildMetadata spec_example_conversion ''c1''
             (ToSuperMasterNamespace spec_example_conversion ''c1'' ''default'') (ServiceObj web) =
           Inr (ServiceObj ?p)"
    by (simp add: spec_example_conversion_def example_conversion_def spec_BuildMetadata_def
        web_def)
  have sb: "BuildMetadata spec_example_conversion = spec_BuildMetadata"
    and sm: "MutateService spec_example_conversion = spec_MutateService drop_clusterIP"
    by (simp_all add: spec_example_conversion_def)
  have t: "ToSuperMasterNamespace spec_example_conversion ''c1'' ''default'' = ''c1-default''"
    by (simp add: spec_example_conversion_def example_conversion_def)
  have m: "MutateService spec_example_conversion ?p =
           \<lparr>Namespace = ''c1-default'', Name = ''web'', ResourceVersion = ''7'',
            Labels = [(''clusterID'', ''c1''), (''namespace'', ''default'')], Spec = []\<rparr>"
    by (simp add: sm spec_MutateService_def drop_clusterIP_def web_def)
  have n: "Name web = ''web''"
    by (simp add: web_def)
  have c: "Create (serviceClient (example_controller mem_client)) ''c1-default''
             \<lparr>Namespace = ''c1-default'', Name = ''web'', ResourceVersion = ''7'',
              Labels = [(''clusterID'', ''c1''), (''namespace'', ''default'')], Spec = []\<rparr>
             (host world0) =
           (None, [((''c1-default'', ''web''),
                    \<lparr>Namespace = ''c1-default'', Name = ''web'', ResourceVersion = ''7'',
                     Labels = [(''clusterID'', ''c1''), (''namespace'', ''default'')],
                     Spec = []\<rparr>)])"
    by (simp add: example_controller_def mem_client_def mem_Create_def world0_def)
  have a: "api_calls world0 = []"
    by (simp add: world0_def)
  from reconcileServiceCreate_creates_in_target_namespace
         [OF b, where c = "example_controller mem_client" and name = "''web''" and w = world0
            and rewrite = drop_clusterIP]
    b sb sm
  show ?thesis
    unfolding t m c a by (simp add: n)
qed

subsection \<open>The Update handler\<close>

text \<open>
  C5, as the code has it. The Update handler is a no-op: reconcileServiceUpdate returns nil
  and leaves the world as it is, and Reconcile of any Update request makes no call on the
  host API and leaves the host unchanged; it writes its one log line only. It returns
  \<open>Result{Requeue: false}\<close> and nil when the object of the request is a service; when it
  is not, the unchecked type assertion panics before the handler is called.
\<close>

theorem Reconcile_Update_is_noop:
  assumes "Event request = UpdateEvent"
  shows "reconcileServiceUpdate c cluster namespace name service w = (Return None, w) \<and>
         api_calls (snd (Reconcile conv c request w)) = api_calls w \<and>
         host (snd (Reconcile conv c request w)) = host w \<and>
         snd (Reconcile conv c request w) =
           w\<lparr>klog := klog w @
                [Infof ''reconcile service %s/%s %s event for cluster %s''
                   [S (req_Namespace request), S (req_Name request), Ev UpdateEvent,
                    S (cluster_Name (Cluster request))]]\<rparr> \<and>
         (Obj request = ServiceObj s \<longrightarrow>
            fst (Reconcile conv c request w) = Return (\<lparr>Requeue = False\<rparr>, None)) \<and>
         (Obj request = OtherObj k \<longrightarrow>
            fst (Reconcile conv c request w) =
              Panic ''interface conversion: interface {} is not *v1.Service'')"
proof -
  have world: "snd (Reconcile conv c request w) =
           w\<lparr>klog := klog w @
                [Infof ''reconcile service %s/%s %s event for cluster %s''
                   [S (req_Namespace request), S (req_Name request), Ev UpdateEvent,
                    S (cluster_Name (Cluster request))]]\<rparr>"
    using assms
    by (cases "Obj request")
      (simp_all add: Reconcile_def reconcileServiceUpdate_def assert_Service_def
        after_handler_def klog_write_def Let_def)
  have ok: "fst (Reconcile conv c request w) = Return (\<lparr>Requeue = False\<rparr>, None)"
    if "Obj request = ServiceObj s"
    using assms that
    by (simp add: Reconcile_def reconcileServiceUpdate_def assert_Service_def after_handler_def
        Let_def)
  have panic: "fst (Reconcile conv c request w) =
                 Panic ''interface conversion: interface {} is not *v1.Service''"
    if "Obj request = OtherObj k"
    using assms that by (simp add: Reconcile_def assert_Service_def Let_def)
  have handler: "reconcileServiceUpdate c cluster namespace name service w = (Return None, w)"
    by (simp add: reconcileServiceUpdate_def)
  from world have "api_calls (snd (Reconcile conv c request w)) = api_calls w"
    and "host (snd (Reconcile conv c request w)) = host w"
    by simp_all
  with handler world ok panic show ?thesis by blast
qed

text \<open>
  The claim as it stands fails: an Update request whose object is a pod does not report
  success, it panics.
\<close>

theorem Reconcile_Update_counterexample:
  "fst (Reconcile example_conversion (example_controller mem_client)
          (request_web UpdateEvent (OtherObj (Some ''default/web''))) world0) =
     Panic ''interface conversion: interface {} is not *v1.Service''"
  by (simp add: Reconcile_def request_web_def assert_Service_def Let_def)

text \<open>
  An Update request for \<open>web\<close> on a super master that holds two services, and one whose
  object is no service.
\<close>

theorem Reconcile_Update_is_noop_witness:
  "Event (request_web UpdateEvent (ServiceObj web)) = UpdateEvent \<and>
   Obj (request_web UpdateEvent (ServiceObj web)) = ServiceObj web \<and>
   fst (Reconcile example_conversion (example_controller mem_client)
          (request_web UpdateEvent (ServiceObj web))
          (world0\<lparr>host := [((''c1-default'', ''web''), web), ((''c2-default'', ''db''), web)]\<rparr>)) =
     Return (\<lparr>Requeue = False\<rparr>, None) \<and>
   api_calls (snd (Reconcile example_conversion (example_controller mem_client)
          (request_web UpdateEvent (ServiceObj web))
          (world0\<lparr>host := [((''c1-default'', ''web''), web), ((''c2-default'', ''db''), web)]\<rparr>))) = [] \<and>
   host (snd (Reconcile example_conversion (example_controller mem_client)
          (request_web UpdateEvent (ServiceObj web))
          (world0\<lparr>host := [((''c1-default'', ''web''), web), ((''c2-default'', ''db''), web)]\<rparr>))) =
     [((''c1-default'', ''web''), web), ((''c2-default'', ''db''), web)] \<and>
   Event (request_web UpdateEvent (OtherObj None)) = UpdateEvent \<and>
   Obj (request_web UpdateEvent (OtherObj None)) = OtherObj None \<and>
   fst (Reconcile example_conversion (example_controller mem_client)
          (request_web UpdateEvent (OtherObj None)) world0) =
     Panic ''interface conversion: interface {} is not *v1.Service'' \<and>
   api_calls (snd (Reconcile example_conversion (example_controller mem_client)
          (request_web UpdateEvent (OtherObj None)) world0)) = []"
proof -
  let ?r = "request_web UpdateEvent (ServiceObj web)"
  let ?q = "request_web UpdateEvent (OtherObj None)"
  let ?c = "example_controller mem_client"
  let ?w = "world0\<lparr>host := [((''c1-default'', ''web''), web), ((''c2-default'', ''db''), web)]\<rparr>"
  have e: "Event ?r = UpdateEvent" and o: "Obj ?r = ServiceObj web"
    and e': "Event ?q = UpdateEvent" and o': "Obj ?q = OtherObj None"
    by (simp_all add: request_web_def)
  have w: "api_calls ?w = []" "host ?w = [((''c1-default'', ''web''), web), ((''c2-default'', ''db''), web)]"
    "api_calls world0 = []"
    by (simp_all add: world0_def)
  from Reconcile_Update_is_noop
         [OF e, where c = ?c and conv = example_conversion and w = ?w and s = web] o w
  have first: "fst (Reconcile example_conversion ?c ?r ?w) = Return (\<lparr>Requeue = False\<rparr>, None)"
    "api_calls (snd (Reconcile example_conversion ?c ?r ?w)) = []"
    "host (snd (Reconcile example_conversion ?c ?r ?w)) =
       [((''c1-default'', ''web''), web), ((''c2-default'', ''db''), web)]"
    by simp_all
  from Reconcile_Update_is_noop
         [OF e', where c = ?c and conv = example_conversion and w = world0 and k = None] o' w
  have second: "fst (Reconcile example_conversion ?c ?q world0) =
       Panic ''interface conversion: interface {} is not *v1.Service''"
    "api_calls (snd (Reconcile example_conversion ?c ?q world0)) = []"
    by simp_all
  from first second e o e' o' show ?thesis by simp
qed

subsection \<open>Unknown event kinds\<close>

text \<open>
  C10. For a request whose event kind is none of AddEvent, UpdateEvent and DeleteEvent,
  Reconcile makes no call on the host API and returns \<open>Result{Requeue: false}\<close> and nil,
  whatever the object of the request is.
\<close>

theorem Reconcile_unknown_event_succeeds:
  assumes "Event request = OtherEvent k"
  shows "fst (Reconcile conv c request w) = Return (\<lparr>Requeue = False\<rparr>, None) \<and>
         api_calls (snd (Reconcile conv c request w)) = api_calls w \<and>
         host (snd (Reconcile conv c request w)) = host w"
  using assms by (simp add: Reconcile_def Let_def klog_write_fields)

theorem Reconcile_unknown_event_succeeds_witness:
  "Event (request_web (OtherEvent ''Resync'') (OtherObj None)) = OtherEvent ''Resync'' \<and>
   fst (Reconcile example_conversion (example_controller (failing_client (OtherError ''down'')))
          (request_web (OtherEvent ''Resync'') (OtherObj None)) world0) =
     Return (\<lparr>Requeue = False\<rparr>, None) \<and>
   api_calls (snd (Reconcile example_conversion
          (example_controller (failing_client (OtherError ''down'')))
          (request_web (OtherEvent ''Resync'') (OtherObj None)) world0)) = []"
proof -
  let ?r = "request_web (OtherEvent ''Resync'') (OtherObj None)"
  have e: "Event ?r = OtherEvent ''Resync''"
    by (simp add: request_web_def)
  from Reconcile_unknown_event_succeeds
         [OF e, of example_conversion
            "example_controller (failing_client (OtherError ''down''))" world0] e
  show ?thesis by (simp add: world0_def)
qed

subsection \<open>Update notifications\<close>

text \<open>
  C6. An update notification for two services with equal resource versions is dropped:
  the UpdateFunc returns with the world as it was, so nothing is given to the work queue.
  With different resource versions the key of the new object is added to the queue.
\<close>

theorem UpdateFunc_drops_resync:
  assumes "oldObj = ServiceObj oldService"
    and "newObj = ServiceObj newService"
  shows "(ResourceVersion newService = ResourceVersion oldService \<longrightarrow>
            UpdateFunc_of_Register oldObj newObj w = (Return (), w)) \<and>
         (ResourceVersion newService \<noteq> ResourceVersion oldService \<longrightarrow>
            (\<exists>key. MetaNamespaceKeyFunc newObj = Inr key \<and>
               UpdateFunc_of_Register oldObj newObj w =
                 (Return (), w\<lparr>work_queue := work_queue w @ [key]\<rparr>)))"
  using assms
  by (simp add: UpdateFunc_of_Register_def assert_Service_def enqueueService_def
      MetaNamespaceKeyFunc_def)

text \<open>
  A resync of \<open>web\<close> leaves the queue empty; \<open>web\<close> at a new resource version puts the
  key \<open>default/web\<close> on it.
\<close>

theorem UpdateFunc_drops_resync_witness:
  "ResourceVersion web = ResourceVersion web \<and>
   work_queue (snd (UpdateFunc_of_Register (ServiceObj web) (ServiceObj web) world0)) = [] \<and>
   ResourceVersion (web\<lparr>ResourceVersion := ''8''\<rparr>) \<noteq> ResourceVersion web \<and>
   work_queue (snd (UpdateFunc_of_Register (ServiceObj web)
                      (ServiceObj (web\<lparr>ResourceVersion := ''8''\<rparr>)) world0)) = [''default/web'']"
proof -
  have v: "ResourceVersion (web\<lparr>ResourceVersion := ''8''\<rparr>) \<noteq> ResourceVersion web"
    by (simp add: web_def)
  have k: "MetaNamespaceKeyFunc (ServiceObj (web\<lparr>ResourceVersion := ''8''\<rparr>)) = Inr ''default/web''"
    by (simp add: MetaNamespaceKeyFunc_def web_def)
  from UpdateFunc_drops_resync [OF refl refl, of web web world0]
  have same: "UpdateFunc_of_Register (ServiceObj web) (ServiceObj web) world0 = (Return (), world0)"
    by simp
  from UpdateFunc_drops_resync [OF refl refl, of "web\<lparr>ResourceVersion := ''8''\<rparr>" web world0] v k
  have new: "UpdateFunc_of_Register (ServiceObj web) (ServiceObj (web\<lparr>ResourceVersion := ''8''\<rparr>))
               world0 = (Return (), world0\<lparr>work_queue := work_queue world0 @ [''default/web'']\<rparr>)"
    by simp
  from same new v show ?thesis by (simp add: world0_def)
qed

subsection \<open>Objects that are not services\<close>

text \<open>
  C7, as the code has it. The object of a request is converted with an unchecked type
  assertion: for an Add, Update or Delete request whose object is not a service, Reconcile
  returns nothing. It panics after its first log line, before the handler runs and with no
  call on the host API. The conversion failure that is returned as an ordinary error, with
  \<open>Result{Requeue: true}\<close>, is the one that BuildMetadata reports in the Create handler.
\<close>

theorem Reconcile_not_a_Service_panics:
  "(Obj request = OtherObj k \<and>
      (Event request = AddEvent \<or> Event request = UpdateEvent \<or> Event request = DeleteEvent) \<longrightarrow>
      Reconcile conv c request w =
        (Panic ''interface conversion: interface {} is not *v1.Service'',
         w\<lparr>klog := klog w @
              [Infof ''reconcile service %s/%s %s event for cluster %s''
                 [S (req_Namespace request), S (req_Name request), Ev (Event request),
                  S (cluster_Name (Cluster request))]]\<rparr>)) \<and>
   (Event request = AddEvent \<and> Obj request = ServiceObj service \<and>
      BuildMetadata conv (cluster_Name (Cluster request))
        (ToSuperMasterNamespace conv (cluster_Name (Cluster request)) (req_Namespace request))
        (ServiceObj service) = Inl err \<longrightarrow>
      fst (Reconcile conv c request w) = Return (\<lparr>Requeue = True\<rparr>, Some err) \<and>
      api_calls (snd (Reconcile conv c request w)) = api_calls w)"
proof (intro conjI impI)
  assume "Obj request = OtherObj k \<and>
    (Event request = AddEvent \<or> Event request = UpdateEvent \<or> Event request = DeleteEvent)"
  then show "Reconcile conv c request w =
        (Panic ''interface conversion: interface {} is not *v1.Service'',
         w\<lparr>klog := klog w @
              [Infof ''reconcile service %s/%s %s event for cluster %s''
                 [S (req_Namespace request), S (req_Name request), Ev (Event request),
                  S (cluster_Name (Cluster request))]]\<rparr>)"
    by (auto simp: Reconcile_def assert_Service_def klog_write_def Let_def)
next
  assume a: "Event request = AddEvent \<and> Obj request = ServiceObj service \<and>
      BuildMetadata conv (cluster_Name (Cluster request))
        (ToSuperMasterNamespace conv (cluster_Name (Cluster request)) (req_Namespace request))
        (ServiceObj service) = Inl err"
  then show "fst (Reconcile conv c request w) = Return (\<lparr>Requeue = True\<rparr>, Some err)"
    by (simp add: Reconcile_def assert_Service_def Let_def fst_after_handler
        reconcileServiceCreate_BuildMetadata_error)
  from a show "api_calls (snd (Reconcile conv c request w)) = api_calls w"
    by (simp add: Reconcile_def assert_Service_def Let_def after_handler_def
        reconcileServiceCreate_BuildMetadata_error klog_write_fields)
qed

text \<open>
  The claim as it stands fails: a Create request for \<open>web\<close> whose object is not a service
  does not come back with an error, it panics.
\<close>

theorem Reconcile_not_a_Service_counterexample:
  "fst (Reconcile example_conversion (example_controller mem_client)
          (request_web AddEvent (OtherObj (Some ''default/web''))) world0) =
     Panic ''interface conversion: interface {} is not *v1.Service''"
  by (simp add: Reconcile_def request_web_def assert_Service_def Let_def)

theorem Reconcile_not_a_Service_panics_witness:
  "Obj (request_web DeleteEvent (OtherObj None)) = OtherObj None \<and>
   Event (request_web DeleteEvent (OtherObj None)) = DeleteEvent \<and>
   fst (Reconcile example_conversion (example_controller mem_client)
          (request_web DeleteEvent (OtherObj None)) world0) =
     Panic ''interface conversion: interface {} is not *v1.Service'' \<and>
   api_calls (snd (Reconcile example_conversion (example_controller mem_client)
          (request_web DeleteEvent (OtherObj None)) world0)) = [] \<and>
   Event (request_web AddEvent (ServiceObj web)) = AddEvent \<and>
   Obj (request_web AddEvent (ServiceObj web)) = ServiceObj web \<and>
   BuildMetadata failing_conversion ''c1'' ''c1-default'' (ServiceObj web) =
     Inl (OtherError ''no meta'') \<and>
   fst (Reconcile failing_conversion (example_controller mem_client)
          (request_web AddEvent (ServiceObj web)) world0) =
     Return (\<lparr>Requeue = True\<rparr>, Some (OtherError ''no meta''))"
proof -
  let ?c = "example_controller mem_client"
  let ?d = "request_web DeleteEvent (OtherObj None)"
  let ?a = "request_web AddEvent (ServiceObj web)"
  have d: "Obj ?d = OtherObj None \<and>
           (Event ?d = AddEvent \<or> Event ?d = UpdateEvent \<or> Event ?d = DeleteEvent)"
    by (simp add: request_web_def)
  have b: "BuildMetadata failing_conversion ''c1'' ''c1-default'' (ServiceObj web) =
           Inl (OtherError ''no meta'')"
    by (simp add: failing_conversion_def)
  have a: "Event ?a = AddEvent \<and> Obj ?a = ServiceObj web \<and>
           BuildMetadata failing_conversion (cluster_Name (Cluster ?a))
             (ToSuperMasterNamespace failing_conversion (cluster_Name (Cluster ?a))
                (req_Namespace ?a)) (ServiceObj web) = Inl (OtherError ''no meta'')"
    by (simp add: request_web_def failing_conversion_def)
  have p: "Reconcile example_conversion ?c ?d world0 =
        (Panic ''interface conversion: interface {} is not *v1.Service'',
         world0\<lparr>klog := klog world0 @
              [Infof ''reconcile service %s/%s %s event for cluster %s''
                 [S (req_Namespace ?d), S (req_Name ?d), Ev (Event ?d),
                  S (cluster_Name (Cluster ?d))]]\<rparr>)"
    using Reconcile_not_a_Service_panics
            [where request = ?d and conv = example_conversion and c = ?c and w = world0
               and k = None] d
    by blast
  have q: "fst (Reconcile failing_conversion ?c ?a world0) =
           Return (\<lparr>Requeue = True\<rparr>, Some (OtherError ''no meta''))"
    using Reconcile_not_a_Service_panics
            [where request = ?a and conv = failing_conversion and c = ?c and w = world0
               and service = web and err = "OtherError ''no meta''"] a
    by blast
  have e: "Event ?d = DeleteEvent" "Obj ?d = OtherObj None" "Event ?a = AddEvent" "Obj ?a = ServiceObj web"
    by (simp_all add: request_web_def)
  have l: "api_calls (snd (Reconcile example_conversion ?c ?d world0)) = []"
    unfolding p by (simp add: world0_def)
  from p q b e l show ?thesis by simp
qed

subsection \<open>Removing a cluster\<close>

text \<open>
  C8, as the code has it. RemoveCluster writes the warning "not implemented yet" and does
  nothing else: it deletes no mirrored object, the host and the calls made on its API are
  unchanged, and so is the multi cluster controller, which goes on watching what it
  watched.
\<close>

theorem RemoveCluster_only_logs:
  "RemoveCluster c cluster w = w\<lparr>klog := klog w @ [Warningf ''not implemented yet'' []]\<rparr> \<and>
   host (RemoveCluster c cluster w) = host w \<and>
   api_calls (RemoveCluster c cluster w) = api_calls w \<and>
   mcc (RemoveCluster c cluster w) = mcc w"
  by (simp add: RemoveCluster_def klog_write_def)

text \<open>
  The claim as it stands fails: the cluster \<open>c1\<close>, watched since AddCluster, is still
  watched after RemoveCluster.
\<close>

theorem RemoveCluster_counterexample:
  "mcc (RemoveCluster (example_controller mem_client) \<lparr>cluster_Name = ''c1''\<rparr>
          (snd (AddCluster (example_controller mem_client) \<lparr>cluster_Name = ''c1''\<rparr> world0))) =
     [''c1'']"
  by (simp add: RemoveCluster_def AddCluster_def example_controller_def mem_mcc_def world0_def
      klog_write_def Let_def)

subsection \<open>Registration\<close>

text \<open>
  C9. When NewController returns an error, Register logs it and returns: no handler is
  added to the informer and the controller is not added to the manager; the world is as
  it was but for the log line.
\<close>

theorem Register_NewController_error:
  assumes "NewController ''tenant-masters-service-controller''
             (ServiceObj \<lparr>Namespace = [], Name = [], ResourceVersion = [], Labels = [], Spec = []\<rparr>)
             (new_controller conv client) = Inl err"
  shows "Register conv NewController client w =
           w\<lparr>klog := klog w @
                [Errorf ''failed to create multi cluster service controller %v'' [E err]]\<rparr> \<and>
         informer_handlers (Register conv NewController client w) = informer_handlers w \<and>
         manager_controllers (Register conv NewController client w) = manager_controllers w"
  using assms by (simp add: Register_def klog_write_def Let_def)

theorem Register_NewController_error_witness:
  "(\<lambda>name obj c. Inl (OtherError ''no scheme'') :: go_error + string list MultiClusterController)
     ''tenant-masters-service-controller''
     (ServiceObj \<lparr>Namespace = [], Name = [], ResourceVersion = [], Labels = [], Spec = []\<rparr>)
     (new_controller example_conversion mem_client) = Inl (OtherError ''no scheme'') \<and>
   informer_handlers (Register example_conversion
      (\<lambda>name obj c. Inl (OtherError ''no scheme'')) mem_client world0) = [] \<and>
   manager_controllers (Register example_conversion
      (\<lambda>name obj c. Inl (OtherError ''no scheme'')) mem_client world0) = [] \<and>
   klog (Register example_conversion
      (\<lambda>name obj c. Inl (OtherError ''no scheme'')) mem_client world0) =
     [Errorf ''failed to create multi cluster service controller %v'' [E (OtherError ''no scheme'')]]"
proof -
  let ?N = "\<lambda>(name :: string) (obj :: iface) (c :: (mem_host, string list) controller).
              Inl (OtherError ''no scheme'') :: go_error + string list MultiClusterController"
  have n: "?N ''tenant-masters-service-controller''
             (ServiceObj \<lparr>Namespace = [], Name = [], ResourceVersion = [], Labels = [], Spec = []\<rparr>)
             (new_controller example_conversion mem_client) = Inl (OtherError ''no scheme'')"
    by simp
  from Register_NewController_error [where NewController = ?N and w = world0, OF n]
  show ?thesis by (simp add: world0_def)
qed

text \<open>
  For comparison, the path on which NewController succeeds: the handlers are added to the
  informer and the controller, with its multi cluster controller set, to the manager.
\<close>

lemma Register_NewController_ok:
  assumes "NewController ''tenant-masters-service-controller''
             (ServiceObj \<lparr>Namespace = [], Name = [], ResourceVersion = [], Labels = [], Spec = []\<rparr>)
             (new_controller conv client) = Inr m"
  shows "informer_handlers (Register conv NewController client w) =
           informer_handlers w @
             [\<lparr>AddFunc = Some c_enqueueService, UpdateFunc = Some Register_UpdateFunc,
               DeleteFunc = None\<rparr>]"
    and "manager_controllers (Register conv NewController client w) =
           manager_controllers w @
             [(new_controller conv client)
                \<lparr>multiClusterServiceController := Some m,
                 serviceLister := Some Lister_of_serviceInformer,
                 serviceSynced := Some HasSynced_of_serviceInformer\<rparr>]"
    and "klog (Register conv NewController client w) = klog w"
  using assms by (simp_all add: Register_def Let_def)

subsection \<open>Failed calls\<close>

text \<open>
  An error of the Create or the Delete call that is not the benign one comes back from
  Reconcile as it is, with \<open>Result{Requeue: true}\<close>.
\<close>

lemma Reconcile_Create_failure_requeues:
  assumes "Event request = AddEvent"
    and "Obj request = ServiceObj service"
    and "BuildMetadata conv (cluster_Name (Cluster request))
           (ToSuperMasterNamespace conv (cluster_Name (Cluster request)) (req_Namespace request))
           (ServiceObj service) = Inr (ServiceObj pService)"
    and "fst (Create (serviceClient c)
           (ToSuperMasterNamespace conv (cluster_Name (Cluster request)) (req_Namespace request))
           (MutateService conv pService) (host w)) = Some e"
    and "\<not> IsAlreadyExists (Some e)"
  shows "fst (Reconcile conv c request w) = Return (\<lparr>Requeue = True\<rparr>, Some e)"
  using assms
  by (simp add: Reconcile_def assert_Service_def Let_def fst_after_handler
      fst_reconcileServiceCreate_klog_write
      reconcileServiceCreate_returns_api_error [where pService = pService])

lemma Reconcile_Delete_failure_requeues:
  assumes "Event request = DeleteEvent"
    and "Obj request = ServiceObj service"
    and "fst (Delete (serviceClient c)
           (ToSuperMasterNamespace conv (cluster_Name (Cluster request)) (req_Namespace request))
           (req_Name request) \<lparr>PropagationPolicy = Some (DefaultDeletionPolicy conv)\<rparr> (host w)) = Some e"
    and "\<not> IsNotFound (Some e)"
  shows "fst (Reconcile conv c request w) = Return (\<lparr>Requeue = True\<rparr>, Some e)"
  using assms
  by (simp add: Reconcile_def assert_Service_def Let_def fst_after_handler
      fst_reconcileServiceRemove_klog_write reconcileServiceRemove_returns_api_error)

subsection \<open>The handlers on the in-memory super master\<close>

text \<open>
  On the in-memory super master a Create request always succeeds, the object is there
  afterwards, and reconciling the same request again changes nothing.
\<close>

lemma mem_Create_again:
  "fst (mem_Create ns obj (snd (mem_Create ns obj h))) = Some (StatusError ''AlreadyExists'')"
  "snd (mem_Create ns obj (snd (mem_Create ns obj h))) = snd (mem_Create ns obj h)"
proof -
  have "map_of (snd (mem_Create ns obj h)) (ns, Name obj) \<noteq> None"
    by (cases "map_of h (ns, Name obj)") (simp_all add: mem_Create_def map_add_def)
  then obtain old where "map_of (snd (mem_Create ns obj h)) (ns, Name obj) = Some old"
    by blast
  then show
    "fst (mem_Create ns obj (snd (mem_Create ns obj h))) = Some (StatusError ''AlreadyExists'')"
    "snd (mem_Create ns obj (snd (mem_Create ns obj h))) = snd (mem_Create ns obj h)"
    by (simp_all add: mem_Create_def [of ns obj "snd (mem_Create ns obj h)"])
qed

lemma host_Reconcile_Create:
  assumes "Event request = AddEvent"
    and "Obj request = ServiceObj service"
    and "BuildMetadata conv (cluster_Name (Cluster request))
           (ToSuperMasterNamespace conv (cluster_Name (Cluster request)) (req_Namespace request))
           (ServiceObj service) = Inr (ServiceObj pService)"
  shows "host (snd (Reconcile conv c request w)) =
         snd (Create (serviceClient c)
           (ToSuperMasterNamespace conv (cluster_Name (Cluster request)) (req_Namespace request))
           (MutateService conv pService) (host w))"
  using assms
  by (simp add: Reconcile_def assert_Service_def Let_def after_handler_def
      reconcileServiceCreate_def klog_write_fields split: prod.splits option.splits)

lemma Reconcile_Create_mem_client:
  assumes "Event request = AddEvent"
    and "Obj request = ServiceObj service"
    and "BuildMetadata conv (cluster_Name (Cluster request))
           (ToSuperMasterNamespace conv (cluster_Name (Cluster request)) (req_Namespace request))
           (ServiceObj service) = Inr (ServiceObj pService)"
    and "serviceClient c = mem_client"
  shows "fst (Reconcile conv c request w) = Return (\<lparr>Requeue = False\<rparr>, None)"
    and "host (snd (Reconcile conv c request (snd (Reconcile conv c request w)))) =
         host (snd (Reconcile conv c request w))"
    and "map_of (host (snd (Reconcile conv c request w)))
           (ToSuperMasterNamespace conv (cluster_Name (Cluster request)) (req_Namespace request),
            Name (MutateService conv pService)) \<noteq> None"
proof -
  let ?ns = "ToSuperMasterNamespace conv (cluster_Name (Cluster request)) (req_Namespace request)"
  let ?p = "MutateService conv pService"
  have "fst (reconcileServiceCreate conv c (cluster_Name (Cluster request))
               (req_Namespace request) (req_Name request) service w) = Return None"
    using assms(3,4)
    by (cases "map_of (host w) (?ns, Name ?p)")
      (simp_all add: reconcileServiceCreate_def assert_Service_def Let_def mem_client_def
        mem_Create_def IsAlreadyExists_def)
  with assms(1,2) show "fst (Reconcile conv c request w) = Return (\<lparr>Requeue = False\<rparr>, None)"
    by (simp add: Reconcile_def assert_Service_def Let_def fst_after_handler
        fst_reconcileServiceCreate_klog_write)
  show "host (snd (Reconcile conv c request (snd (Reconcile conv c request w)))) =
         host (snd (Reconcile conv c request w))"
    using assms(4) by (simp add: host_Reconcile_Create [OF assms(1-3)] mem_client_def mem_Create_again)
  show "map_of (host (snd (Reconcile conv c request w))) (?ns, Name ?p) \<noteq> None"
    using assms(4)
    by (cases "map_of (host w) (?ns, Name ?p)")
      (simp_all add: host_Reconcile_Create [OF assms(1-3)] mem_client_def mem_Create_def map_add_def)
qed

text \<open>A Delete request always succeeds there, and leaves no object of that name.\<close>

lemma map_of_filter_other: "map_of (filter (\<lambda>kv. fst kv \<noteq> k) h) k = None"
  by (induction h) auto

lemma Reconcile_Delete_mem_client:
  assumes "Event request = DeleteEvent"
    and "Obj request = ServiceObj service"
    and "serviceClient c = mem_client"
  shows "fst (Reconcile conv c request w) = Return (\<lparr>Requeue = False\<rparr>, None)"
    and "map_of (host (snd (Reconcile conv c request w)))
           (ToSuperMasterNamespace conv (cluster_Name (Cluster request)) (req_Namespace request),
            req_Name request) = None"
proof -
  let ?k = "(ToSuperMasterNamespace conv (cluster_Name (Cluster request)) (req_Namespace request),
             req_Name request)"
  have "fst (reconcileServiceRemove conv c (cluster_Name (Cluster request))
               (req_Namespace request) (req_Name request) service w) = Return None"
    using assms(3)
    by (cases "map_of (host w) ?k")
      (simp_all add: reconcileServiceRemove_def Let_def mem_client_def mem_Delete_def
        IsNotFound_def)
  with assms(1,2) show "fst (Reconcile conv c request w) = Return (\<lparr>Requeue = False\<rparr>, None)"
    by (simp add: Reconcile_def assert_Service_def Let_def fst_after_handler
        fst_reconcileServiceRemove_klog_write)
  show "map_of (host (snd (Reconcile conv c request w))) ?k = None"
    using assms
    by (cases "map_of (host w) ?k")
      (simp_all add: Reconcile_def assert_Service_def Let_def after_handler_def
        reconcileServiceRemove_def mem_client_def mem_Delete_def IsNotFound_def
        klog_write_fields map_of_filter_other)
qed

text \<open>The handler that Register gives to the informer runs the UpdateFunc closure.\<close>

lemma OnUpdate_registered:
  "OnUpdate \<lparr>AddFunc = Some c_enqueueService, UpdateFunc = Some Register_UpdateFunc,
              DeleteFunc = None\<rparr> oldObj newObj w = UpdateFunc_of_Register oldObj newObj w"
  by (simp add: OnUpdate_def)

end
